theory Spec2Isabelle
  imports Main "HOL-Library.Word"
begin

section \<open>Stopwatch firmware with interrupt-captured sensors\<close>

text \<open>
  A shallow embedding of the interrupt-driven stopwatch sketch: the debounced button
  input, the pin-change capture handler with its ring buffer of sensor events, the
  stopwatch actions and the body of \<open>loop()\<close>.  Global variables are the fields of
  one record; \<open>uint8_t\<close>, \<open>uint16_t\<close> and \<open>uint32_t\<close> are words of that width, so
  subtraction and addition wrap as on the target.  Readings of the hardware
  (\<open>millis()\<close>, \<open>micros()\<close>, \<open>digitalRead\<close>) are parameters.  Writing to the LCD, the
  line cache that only serves it, and the port snapshots \<open>gPrevPIND\<close>/\<open>gPrevPINB\<close>
  that the interrupt vectors use to find which pin changed are left out: the
  embedding starts at \<open>handleSensorEdgeIsr\<close>, which receives the decoded edge.
\<close>

type_synonym u8 = "8 word"
type_synonym u16 = "16 word"
type_synonym u32 = "32 word"

subsection \<open>Parameters\<close>

definition kSensorCount :: u8 where "kSensorCount = 4"
definition kDebounceButtonMs :: u16 where "kDebounceButtonMs = 25"
definition kLongPressMs :: u16 where "kLongPressMs = 1200"
definition kMultiClickGapMs :: u16 where "kMultiClickGapMs = 350"
definition kLcdUpdateIntervalMs :: u16 where "kLcdUpdateIntervalMs = 120"
definition kFinalPopupCycleMs :: u16 where "kFinalPopupCycleMs = 1400"
definition kLapSavedPopupMs :: u16 where "kLapSavedPopupMs = 900"
definition kMaxLaps :: u8 where "kMaxLaps = 20"
definition kMinActivePulseUs :: u16 where "kMinActivePulseUs = 200"
definition kSensorRearmUs :: u32 where "kSensorRearmUs = 25000"
definition kSensorActiveLow :: bool where "kSensorActiveLow = True"
definition kEventBufSize :: u8 where "kEventBufSize = 16"

subsection \<open>Data\<close>

record DebouncedInput =
  pin :: u8
  debounceMs :: u16
  stableState :: bool
  lastRawState :: bool
  lastChangeMs :: u32
  fellEvent :: bool
  roseEvent :: bool

record SensorEvent =
  sensor_id :: u8
  t_us :: u32

datatype RunState = IDLE | RUNNING | PAUSED | FINISHED

record globals =
  gEventBuf :: "SensorEvent list"
  gEventHead :: u8
  gEventTail :: u8
  gFallUs :: "u32 list"
  gSawFall :: "bool list"
  gLastAcceptedUs :: "u32 list"
  gState :: RunState
  gStartUs :: u32
  gElapsedUs :: u32
  gLapUs :: "u32 list"
  gLapCount :: u8
  gFinalLapIndex :: u8
  gFinalShowDelta :: bool
  gNextFinalPopupMs :: u32
  gLapSavedPopupActive :: bool
  gLapSavedPopupUntilMs :: u32
  gLapSavedIndex :: u8
  inBtnControl :: DebouncedInput
  gBtnPressStartMs :: u32
  gLongPressHandled :: bool
  gPendingClickCount :: u8
  gClickSequenceDeadlineMs :: u32
  gLastLcdUpdateMs :: u32

subsection \<open>Stopwatch actions\<close>

definition startOrResumeUs :: "u32 \<Rightarrow> globals \<Rightarrow> globals" where
  "startOrResumeUs nowUs s =
     (if gState s = FINISHED then s
      else s\<lparr>gStartUs := nowUs - gElapsedUs s, gState := RUNNING\<rparr>)"

definition pauseUs :: "u32 \<Rightarrow> globals \<Rightarrow> globals" where
  "pauseUs nowUs s =
     (if gState s \<noteq> RUNNING then s
      else s\<lparr>gElapsedUs := nowUs - gStartUs s, gState := PAUSED\<rparr>)"

definition togglePauseResumeByDoubleClick :: "u32 \<Rightarrow> globals \<Rightarrow> globals" where
  "togglePauseResumeByDoubleClick nowUs s =
     (case gState s of
        IDLE \<Rightarrow> startOrResumeUs nowUs s
      | RUNNING \<Rightarrow> pauseUs nowUs s
      | PAUSED \<Rightarrow> startOrResumeUs nowUs s
      | FINISHED \<Rightarrow> s)"

definition saveLapUs :: "u32 \<Rightarrow> u32 \<Rightarrow> globals \<Rightarrow> globals" where
  "saveLapUs eventUs nowMs s =
     (if gState s \<noteq> RUNNING then s
      else if kMaxLaps \<le> gLapCount s then s
      else s\<lparr>gLapUs := (gLapUs s)[unat (gLapCount s) := eventUs - gStartUs s],
              gLapSavedIndex := gLapCount s,
              gLapSavedPopupActive := True,
              gLapSavedPopupUntilMs := nowMs + ucast kLapSavedPopupMs,
              gLapCount := gLapCount s + 1\<rparr>)"

definition finishAndShowLaps :: "u32 \<Rightarrow> u32 \<Rightarrow> globals \<Rightarrow> globals" where
  "finishAndShowLaps nowUs nowMs s =
     (let s1 = (if gState s = RUNNING then s\<lparr>gElapsedUs := nowUs - gStartUs s\<rparr> else s)
      in if gState s1 = IDLE \<and> gLapCount s1 = 0 \<and> gElapsedUs s1 = 0 then s1
         else s1\<lparr>gState := FINISHED,
                 gLapSavedPopupActive := False,
                 gFinalLapIndex := 0,
                 gFinalShowDelta := False,
                 gNextFinalPopupMs := nowMs\<rparr>)"

definition processClickSequence :: "u8 \<Rightarrow> u32 \<Rightarrow> u32 \<Rightarrow> globals \<Rightarrow> globals" where
  "processClickSequence clicks nowUs nowMs s =
     (if clicks = 1 then saveLapUs nowUs nowMs s
      else if clicks = 2 then togglePauseResumeByDoubleClick nowUs s
      else if clicks = 3 then finishAndShowLaps nowUs nowMs s
      else s)"

definition lapDeltaUs :: "u8 \<Rightarrow> globals \<Rightarrow> u32" where
  "lapDeltaUs idx s =
     (if idx = 0 then gLapUs s ! 0
      else gLapUs s ! unat idx - gLapUs s ! (unat idx - 1))"

text \<open>
  \<open>resetAll\<close>: the stopwatch, the popups, the click sequence, and, in the source
  between \<open>noInterrupts()\<close> and \<open>interrupts()\<close>, the event ring and the state of
  every sensor.  The debounced input itself is not touched.  The loops over the lap
  table and the sensors write every cell, so the tables come out as constant lists.
\<close>

definition resetAll :: "globals \<Rightarrow> globals" where
  "resetAll s =
     s\<lparr>gState := IDLE,
       gStartUs := 0,
       gElapsedUs := 0,
       gLapCount := 0,
       gLapUs := map (\<lambda>_. 0) (gLapUs s),
       gFinalLapIndex := 0,
       gFinalShowDelta := False,
       gNextFinalPopupMs := 0,
       gLapSavedPopupActive := False,
       gLapSavedPopupUntilMs := 0,
       gLapSavedIndex := 0,
       gPendingClickCount := 0,
       gClickSequenceDeadlineMs := 0,
       gBtnPressStartMs := 0,
       gLongPressHandled := False,
       gEventHead := 0,
       gEventTail := 0,
       gSawFall := map (\<lambda>_. False) (gSawFall s),
       gFallUs := map (\<lambda>_. 0) (gFallUs s),
       gLastAcceptedUs := map (\<lambda>_. 0) (gLastAcceptedUs s)\<rparr>"

text \<open>
  The state at power-up, from the initialisers of the globals: statics without an
  initialiser are zero, and the members of \<open>DebouncedInput\<close> have the defaults
  written in the struct.
\<close>

definition initial_input :: DebouncedInput where
  "initial_input =
     \<lparr>pin = 255, debounceMs = 0, stableState = True, lastRawState = True,
      lastChangeMs = 0, fellEvent = False, roseEvent = False\<rparr>"

definition initial_globals :: globals where
  "initial_globals =
     \<lparr>gEventBuf = replicate 16 \<lparr>sensor_id = 0, t_us = 0\<rparr>,
      gEventHead = 0,
      gEventTail = 0,
      gFallUs = [0, 0, 0, 0],
      gSawFall = [False, False, False, False],
      gLastAcceptedUs = [0, 0, 0, 0],
      gState = IDLE,
      gStartUs = 0,
      gElapsedUs = 0,
      gLapUs = replicate 20 0,
      gLapCount = 0,
      gFinalLapIndex = 0,
      gFinalShowDelta = False,
      gNextFinalPopupMs = 0,
      gLapSavedPopupActive = False,
      gLapSavedPopupUntilMs = 0,
      gLapSavedIndex = 0,
      inBtnControl = initial_input,
      gBtnPressStartMs = 0,
      gLongPressHandled = False,
      gPendingClickCount = 0,
      gClickSequenceDeadlineMs = 0,
      gLastLcdUpdateMs = 0\<rparr>"

subsection \<open>Debounced button input\<close>

text \<open>
  \<open>begin\<close> and \<open>update\<close> read the pin; the level read (\<open>True\<close> for HIGH) is the
  parameter \<open>initial\<close>, respectively \<open>raw\<close>.  \<open>fell\<close> and \<open>rose\<close> return the flag
  together with the input whose flag is cleared.
\<close>

definition DebouncedInput_begin ::
  "u8 \<Rightarrow> u16 \<Rightarrow> bool \<Rightarrow> u32 \<Rightarrow> DebouncedInput \<Rightarrow> DebouncedInput" where
  "DebouncedInput_begin p dbMs initial nowMs d =
     d\<lparr>pin := p, debounceMs := dbMs, stableState := initial, lastRawState := initial,
       lastChangeMs := nowMs, fellEvent := False, roseEvent := False\<rparr>"

definition DebouncedInput_update :: "bool \<Rightarrow> u32 \<Rightarrow> DebouncedInput \<Rightarrow> DebouncedInput" where
  "DebouncedInput_update raw nowMs d =
     (let d1 = (if raw \<noteq> lastRawState d
                then d\<lparr>lastRawState := raw, lastChangeMs := nowMs\<rparr> else d)
      in if ucast (debounceMs d1) \<le> nowMs - lastChangeMs d1 \<and> stableState d1 \<noteq> raw
         then (let prev = stableState d1;
                   d2 = d1\<lparr>stableState := raw\<rparr>;
                   d3 = (if prev = True \<and> stableState d2 = False
                         then d2\<lparr>fellEvent := True\<rparr> else d2)
               in if prev = False \<and> stableState d3 = True
                  then d3\<lparr>roseEvent := True\<rparr> else d3)
         else d1)"

definition DebouncedInput_fell :: "DebouncedInput \<Rightarrow> bool \<times> DebouncedInput" where
  "DebouncedInput_fell d = (fellEvent d, d\<lparr>fellEvent := False\<rparr>)"

definition DebouncedInput_rose :: "DebouncedInput \<Rightarrow> bool \<times> DebouncedInput" where
  "DebouncedInput_rose d = (roseEvent d, d\<lparr>roseEvent := False\<rparr>)"

definition DebouncedInput_isPressed :: "DebouncedInput \<Rightarrow> bool" where
  "DebouncedInput_isPressed d = (stableState d = False)"

subsection \<open>Sensor capture in the interrupt handler\<close>

definition usDiff :: "u32 \<Rightarrow> u32 \<Rightarrow> u32" where
  "usDiff a b = a - b"

text \<open>
  \<open>gEventHead + 1\<close> is computed in \<open>int\<close> after integer promotion, reduced modulo
  the buffer size and cast back to \<open>uint8_t\<close>.
\<close>

definition pushEventIsr :: "u8 \<Rightarrow> u32 \<Rightarrow> globals \<Rightarrow> globals" where
  "pushEventIsr sensorId tUs s =
     (let next = (of_nat ((unat (gEventHead s) + 1) mod unat kEventBufSize) :: u8)
      in if next = gEventTail s then s
         else s\<lparr>gEventBuf := (gEventBuf s)[unat (gEventHead s) :=
                                 \<lparr>sensor_id = sensorId, t_us = tUs\<rparr>],
                 gEventHead := next\<rparr>)"

definition handleSensorEdgeIsr :: "u8 \<Rightarrow> bool \<Rightarrow> u32 \<Rightarrow> globals \<Rightarrow> globals" where
  "handleSensorEdgeIsr sensorId pinIsHigh nowUs s =
     (if \<not> kSensorActiveLow then s
      else if \<not> pinIsHigh
      then s\<lparr>gFallUs := (gFallUs s)[unat sensorId := nowUs],
              gSawFall := (gSawFall s)[unat sensorId := True]\<rparr>
      else if \<not> gSawFall s ! unat sensorId then s
      else (let fall = gFallUs s ! unat sensorId;
                s1 = s\<lparr>gSawFall := (gSawFall s)[unat sensorId := False]\<rparr>;
                width = usDiff nowUs fall
            in if width < ucast kMinActivePulseUs then s1
               else (let sinceLast = usDiff fall (gLastAcceptedUs s1 ! unat sensorId)
                     in if sinceLast < kSensorRearmUs then s1
                        else pushEventIsr sensorId fall
                               (s1\<lparr>gLastAcceptedUs :=
                                     (gLastAcceptedUs s1)[unat sensorId := fall]\<rparr>))))"

text \<open>\<open>popEvent\<close> returns \<open>None\<close> for \<open>false\<close>, and the event copied out for \<open>true\<close>.\<close>

definition popEvent :: "globals \<Rightarrow> SensorEvent option \<times> globals" where
  "popEvent s =
     (if gEventTail s = gEventHead s then (None, s)
      else (Some \<lparr>sensor_id = sensor_id (gEventBuf s ! unat (gEventTail s)),
                  t_us = t_us (gEventBuf s ! unat (gEventTail s))\<rparr>,
            s\<lparr>gEventTail := of_nat ((unat (gEventTail s) + 1) mod unat kEventBufSize)\<rparr>))"

subsection \<open>The main loop\<close>

text \<open>
  The body of \<open>loop()\<close>, one definition for each of its parts A to D.  Part A drains
  the event ring; the \<open>while\<close> loop ends when the tail meets the head, which it never
  does when the head is not an index of the ring, so the drain is a partial function.
\<close>

definition dispatchEvent :: "u32 \<Rightarrow> SensorEvent \<Rightarrow> globals \<Rightarrow> globals" where
  "dispatchEvent nowMs ev s =
     (if sensor_id ev = 0 then startOrResumeUs (t_us ev) s
      else saveLapUs (t_us ev) nowMs s)"

partial_function (option) drainEvents :: "u32 \<Rightarrow> globals \<Rightarrow> globals option" where
  "drainEvents nowMs s =
     (case fst (popEvent s) of
        None \<Rightarrow> Some (snd (popEvent s))
      | Some ev \<Rightarrow> drainEvents nowMs (dispatchEvent nowMs ev (snd (popEvent s))))"

text \<open>Part B, the button: press start, long press, release, and the click window.\<close>

definition loopButtonFell :: "u32 \<Rightarrow> globals \<Rightarrow> globals" where
  "loopButtonFell nowMs s =
     (let (f, b) = DebouncedInput_fell (inBtnControl s);
          s1 = s\<lparr>inBtnControl := b\<rparr>
      in if f then s1\<lparr>gBtnPressStartMs := nowMs, gLongPressHandled := False\<rparr> else s1)"

definition loopLongPress :: "u32 \<Rightarrow> globals \<Rightarrow> globals" where
  "loopLongPress nowMs s =
     (if DebouncedInput_isPressed (inBtnControl s) \<and> \<not> gLongPressHandled s
      then (if ucast kLongPressMs \<le> nowMs - gBtnPressStartMs s
            then (resetAll s)\<lparr>gPendingClickCount := 0,
                               gClickSequenceDeadlineMs := 0,
                               gLongPressHandled := True\<rparr>
            else s)
      else s)"

definition loopButtonRose :: "u32 \<Rightarrow> globals \<Rightarrow> globals" where
  "loopButtonRose nowMs s =
     (let (r, b) = DebouncedInput_rose (inBtnControl s);
          s1 = s\<lparr>inBtnControl := b\<rparr>
      in if r
         then (if \<not> gLongPressHandled s1
               then s1\<lparr>gPendingClickCount := gPendingClickCount s1 + 1,
                        gClickSequenceDeadlineMs := nowMs + ucast kMultiClickGapMs\<rparr>
               else s1)
         else s1)"

definition loopClickWindow :: "u32 \<Rightarrow> u32 \<Rightarrow> globals \<Rightarrow> globals" where
  "loopClickWindow nowMs nowUs s =
     (if 0 < gPendingClickCount s \<and> \<not> DebouncedInput_isPressed (inBtnControl s)
      then (if gClickSequenceDeadlineMs s \<le> nowMs
            then (processClickSequence (gPendingClickCount s) nowUs nowMs s)
                   \<lparr>gPendingClickCount := 0, gClickSequenceDeadlineMs := 0\<rparr>
            else s)
      else s)"

definition loopButton :: "bool \<Rightarrow> u32 \<Rightarrow> u32 \<Rightarrow> globals \<Rightarrow> globals" where
  "loopButton raw nowMs nowUs s =
     loopClickWindow nowMs nowUs
       (loopButtonRose nowMs
         (loopLongPress nowMs
           (loopButtonFell nowMs
             (s\<lparr>inBtnControl := DebouncedInput_update raw nowMs (inBtnControl s)\<rparr>))))"

text \<open>Part C, the live elapsed time.\<close>

definition loopElapsed :: "u32 \<Rightarrow> globals \<Rightarrow> globals" where
  "loopElapsed nowUs s =
     (if gState s = RUNNING then s\<lparr>gElapsedUs := nowUs - gStartUs s\<rparr> else s)"

text \<open>
  Part D, the display.  The value returned with the state names the render function
  that part D calls, with its arguments, or \<open>NoRender\<close> when it calls none.
\<close>

datatype screen = NoRender | MainScreen u32 | LapSavedPopup u8 | FinalLapPopup u8 bool

definition loopLcd :: "u32 \<Rightarrow> globals \<Rightarrow> screen \<times> globals" where
  "loopLcd nowMs s =
     (if nowMs - gLastLcdUpdateMs s < ucast kLcdUpdateIntervalMs then (NoRender, s)
      else (let s1 = s\<lparr>gLastLcdUpdateMs := nowMs\<rparr>
            in if gState s1 = FINISHED
               then (if gLapCount s1 = 0 then (MainScreen (gElapsedUs s1), s1)
                     else if gNextFinalPopupMs s1 \<le> nowMs
                     then (let s2 = (if \<not> gFinalShowDelta s1
                                     then s1\<lparr>gFinalShowDelta := True\<rparr>
                                     else (let s3 = s1\<lparr>gFinalShowDelta := False,
                                                        gFinalLapIndex := gFinalLapIndex s1 + 1\<rparr>
                                           in if gLapCount s3 \<le> gFinalLapIndex s3
                                              then s3\<lparr>gFinalLapIndex := 0\<rparr> else s3))
                           in (FinalLapPopup (gFinalLapIndex s1) (gFinalShowDelta s1),
                               s2\<lparr>gNextFinalPopupMs := nowMs + ucast kFinalPopupCycleMs\<rparr>))
                     else (NoRender, s1))
               else if gLapSavedPopupActive s1
               then (if gLapSavedPopupUntilMs s1 \<le> nowMs
                     then (MainScreen (gElapsedUs s1), s1\<lparr>gLapSavedPopupActive := False\<rparr>)
                     else (LapSavedPopup (gLapSavedIndex s1), s1))
               else (MainScreen (gElapsedUs s1), s1)))"

definition loop :: "u32 \<Rightarrow> u32 \<Rightarrow> bool \<Rightarrow> globals \<Rightarrow> (screen \<times> globals) option" where
  "loop nowMs nowUs raw s =
     (case drainEvents nowMs s of
        None \<Rightarrow> None
      | Some s1 \<Rightarrow> Some (loopLcd nowMs (loopElapsed nowUs (loopButton raw nowMs nowUs s1))))"

section \<open>Recording a lap outside RUNNING or with a full table\<close>

text \<open>
  C7.  \<open>saveLapUs\<close> returns the state it was given, every field of it, whenever the
  stopwatch is not RUNNING or the lap count has reached the capacity of 20.  In
  particular the count is unchanged while PAUSED or IDLE, and with 20 laps stored a
  further call leaves the count at 20 and the table as it was.
\<close>

theorem saveLapUs_noop:
  "(gState s \<noteq> RUNNING \<or> kMaxLaps \<le> gLapCount s \<longrightarrow> saveLapUs eventUs nowMs s = s)
   \<and> (gState s = PAUSED \<or> gState s = IDLE \<longrightarrow>
        gLapCount (saveLapUs eventUs nowMs s) = gLapCount s)
   \<and> (gLapCount s = 20 \<longrightarrow>
        gLapCount (saveLapUs eventUs nowMs s) = 20
        \<and> gLapUs (saveLapUs eventUs nowMs s) = gLapUs s)"
  by (auto simp: saveLapUs_def kMaxLaps_def)

theorem saveLapUs_noop_witness:
  "saveLapUs 1000 1 initial_globals = initial_globals
   \<and> gLapCount (saveLapUs 1000 1 (initial_globals\<lparr>gState := PAUSED\<rparr>)) = 0
   \<and> gLapCount (saveLapUs 1000 1 (initial_globals\<lparr>gState := RUNNING, gLapCount := 20\<rparr>)) = 20
   \<and> gLapUs (saveLapUs 1000 1 (initial_globals\<lparr>gState := RUNNING, gLapCount := 20\<rparr>))
       = replicate 20 0"
  using saveLapUs_noop [of initial_globals 1000 1]
    saveLapUs_noop [of "initial_globals\<lparr>gState := PAUSED\<rparr>" 1000 1]
    saveLapUs_noop [of "initial_globals\<lparr>gState := RUNNING, gLapCount := 20\<rparr>" 1000 1]
  by (simp add: initial_globals_def)

section \<open>Start, pause and resume\<close>




end
